theory Spec2Isabelle
  imports Main
begin

section \<open>JavaScript values\<close>

text \<open>
  The report generator works on the plain JavaScript values that the XML parser returns:
  strings, numbers, booleans, arrays and objects. An object is kept as the list of its
  own properties in the order \<open>Object.entries\<close> enumerates them; a property lookup
  \<open>o[k]\<close> is \<open>map_of\<close> on that list, \<open>None\<close> standing for \<open>undefined\<close>.
  A character is one code unit below 256. Of a number the code only ever tests whether it is
  zero, so an integer stands for it.
\<close>

datatype jsval =
    JStr string
  | JNum int
  | JBool bool
  | JArr "jsval list"
  | JObj "(string \<times> jsval) list"

text \<open>Truthiness, as \<open>if (v)\<close>, \<open>!v\<close> and \<open>filter(Boolean)\<close> read it.\<close>

fun truthy :: "jsval \<Rightarrow> bool" where
  "truthy (JStr s) = (s \<noteq> [])"
| "truthy (JNum n) = (n \<noteq> 0)"
| "truthy (JBool b) = b"
| "truthy (JArr vs) = True"
| "truthy (JObj kvs) = True"

text \<open>\<open>o[k]\<close> being truthy: a missing property is \<open>undefined\<close>, which is falsy.\<close>

fun truthy_opt :: "jsval option \<Rightarrow> bool" where
  "truthy_opt None = False"
| "truthy_opt (Some v) = truthy v"

text \<open>\<open>xs.join(sep)\<close> on an array of strings.\<close>

fun join :: "string \<Rightarrow> string list \<Rightarrow> string" where
  "join sep [] = []"
| "join sep [x] = x"
| "join sep (x # y # ys) = x @ sep @ join sep (y # ys)"

section \<open>The data model of the reconciler\<close>

record meta =
  playwrightRefs :: "string list"
  jiraKeys :: "string list"
  tags :: "string list"
  priority :: string
  figmaUrl :: string
  figmaNodeId :: string
  figmaComponentKey :: string
  variant :: string

text \<open>The element record \<open>el\<close> built by \<open>collectBpmnElements\<close>: \<open>{id, type, name, meta}\<close>.\<close>

record el =
  el_id :: jsval
  el_type :: string
  el_name :: jsval
  el_meta :: meta

text \<open>A hit as the scanner pushes it: \<open>{file, line, title}\<close>.\<close>

record hit =
  hit_file :: string
  hit_line :: nat
  hit_title :: string

text \<open>
  \<open>hitsById\<close> is a JavaScript \<open>Map\<close> from identifier to the array of its hits: an
  association list in insertion order. A \<open>Map\<close> holds every key once.
\<close>

type_synonym hits_map = "(string \<times> hit list) list"

definition wf_map :: "hits_map \<Rightarrow> bool" where
  "wf_map m = distinct (map fst m)"

record row =
  row_id :: jsval
  row_name :: jsval
  row_type :: string
  row_priority :: string
  row_tags :: string
  row_jira :: string
  row_playwrightRefs :: string
  row_figma :: string
  row_tests :: string
  row_coverage :: string

text \<open>An orphan entry \<open>{id, ...h}\<close>.\<close>

record orphan =
  o_id :: string
  o_file :: string
  o_line :: nat
  o_title :: string

record report =
  rows :: "row list"
  orphans :: "orphan list"

section \<open>buildReport\<close>

text \<open>
  \<open>hitsById.get(el.id) || []\<close>: the keys of the map are strings, so an identifier that is
  not a string finds nothing; an array is always truthy, so \<open>|| []\<close> only replaces
  \<open>undefined\<close>.
\<close>

definition row_hits :: "hits_map \<Rightarrow> el \<Rightarrow> hit list" where
  "row_hits hitsById e =
     (case el_id e of
        JStr s \<Rightarrow> (case map_of hitsById s of Some hs \<Rightarrow> hs | None \<Rightarrow> [])
      | _ \<Rightarrow> [])"

text \<open>\<open>v || ''\<close> on a value and on a string.\<close>

definition or_empty :: "jsval \<Rightarrow> jsval" where
  "or_empty v = (if truthy v then v else JStr [])"

definition str_or_empty :: "string \<Rightarrow> string" where
  "str_or_empty s = (if s \<noteq> [] then s else [])"

text \<open>\<open>s.replace(/^bpmn:/, '')\<close>.\<close>

definition strip_bpmn :: "string \<Rightarrow> string" where
  "strip_bpmn s = (if take 5 s = ''bpmn:'' then drop 5 s else s)"

text \<open>The template \<open>`${t.file}${t.title ? `#${t.title}` : ''}`\<close>.\<close>

definition test_label :: "hit \<Rightarrow> string" where
  "test_label t = hit_file t @ (if hit_title t \<noteq> [] then ''#'' @ hit_title t else [])"

definition figma_of :: "meta \<Rightarrow> string" where
  "figma_of m =
     (if figmaUrl m \<noteq> [] then figmaUrl m
      else if figmaNodeId m \<noteq> [] then ''node:'' @ figmaNodeId m else [])"

text \<open>The body of \<open>bpmnEls.map(el => ...)\<close>.\<close>

definition mk_row :: "hits_map \<Rightarrow> el \<Rightarrow> row" where
  "mk_row hitsById e =
     (let tests = row_hits hitsById e;
          coverage = (if length tests > 0 then ''Covered'' else ''Missing'')
      in \<lparr> row_id = el_id e,
           row_name = or_empty (el_name e),
           row_type = strip_bpmn (str_or_empty (el_type e)),
           row_priority = str_or_empty (priority (el_meta e)),
           row_tags = join '', '' (tags (el_meta e)),
           row_jira = join '', '' (jiraKeys (el_meta e)),
           row_playwrightRefs = join '' | '' (playwrightRefs (el_meta e)),
           row_figma = figma_of (el_meta e),
           row_tests = join '' | '' (map test_label tests),
           row_coverage = coverage \<rparr>)"

text \<open>\<open>({ id, ...h })\<close>.\<close>

definition mk_orphan :: "string \<Rightarrow> hit \<Rightarrow> orphan" where
  "mk_orphan i h = \<lparr> o_id = i, o_file = hit_file h, o_line = hit_line h, o_title = hit_title h \<rparr>"

text \<open>\<open>hitsById.get(id)\<close> for a key of the map.\<close>

definition group_of :: "hits_map \<Rightarrow> string \<Rightarrow> hit list" where
  "group_of hitsById i = (case map_of hitsById i of Some hs \<Rightarrow> hs | None \<Rightarrow> [])"

definition orphanIds :: "el list \<Rightarrow> hits_map \<Rightarrow> string list" where
  "orphanIds bpmnEls hitsById =
     filter (\<lambda>i. JStr i \<notin> set (map el_id bpmnEls)) (map fst hitsById)"

definition buildReport :: "el list \<Rightarrow> hits_map \<Rightarrow> report" where
  "buildReport bpmnEls hitsById =
     \<lparr> rows = map (mk_row hitsById) bpmnEls,
       orphans = concat (map (\<lambda>i. map (mk_orphan i) (group_of hitsById i))
                          (orphanIds bpmnEls hitsById)) \<rparr>"


section \<open>The reference scanner\<close>

text \<open>
  Characters: the newline, the white space of \<open>\s\<close> and of \<open>trim\<close>, the line terminators
  that \<open>.\<close> does not match, and the case folding of the \<open>i\<close> flag, which below 256 only
  pairs the ASCII letters.
\<close>

definition nl :: char where "nl = CHR 0x0A"

definition is_space :: "char \<Rightarrow> bool" where
  "is_space c = ((of_char c :: nat) \<in> {9, 10, 11, 12, 13, 32, 160})"

definition is_line_terminator :: "char \<Rightarrow> bool" where
  "is_line_terminator c = ((of_char c :: nat) \<in> {10, 13})"

definition ascii_lower :: "char \<Rightarrow> char" where
  "ascii_lower c = (if 65 \<le> (of_char c :: nat) \<and> (of_char c :: nat) \<le> 90
                    then char_of ((of_char c :: nat) + 32) else c)"

text \<open>
  The marker expression \<open>/\[bpmn:([^\]]+)\]/g\<close>. \<open>marker_text\<close> is the matched text
  \<open>mt[0]\<close> of a match with identifier \<open>mt[1]\<close>. \<open>match_marker s\<close> is the match that starts
  at the head of \<open>s\<close>, as the identifier and the length of the match: the class
  \<open>[^\]]+\<close> takes the longest run of characters other than \<open>]\<close>, which must not be
  empty and must be followed by a \<open>]\<close> (a shorter run is followed by a character of the
  run, never by \<open>]\<close>).
\<close>

definition marker_text :: "string \<Rightarrow> string" where
  "marker_text ident = ''[bpmn:'' @ ident @ '']''"

definition match_marker :: "string \<Rightarrow> (string \<times> nat) option" where
  "match_marker s =
     (if take 6 s = ''[bpmn:'' then
        (let ident = takeWhile (\<lambda>c. c \<noteq> CHR '']'') (drop 6 s);
             rest = dropWhile (\<lambda>c. c \<noteq> CHR '']'') (drop 6 s)
         in if ident \<noteq> [] \<and> rest \<noteq> [] then Some (ident, 6 + length ident + 1) else None)
      else None)"

text \<open>
  The loop \<open>while ((mt = re.exec(text)) !== null)\<close>: the matches from \<open>lastIndex = i\<close> on,
  each as \<open>(mt.index, mt[1])\<close>. A match moves \<open>lastIndex\<close> behind itself.
\<close>

function marker_matches :: "string \<Rightarrow> nat \<Rightarrow> (nat \<times> string) list" where
  "marker_matches text i =
     (if length text \<le> i then []
      else (case match_marker (drop i text) of
              Some (ident, n) \<Rightarrow> (i, ident) # marker_matches text (i + n)
            | None \<Rightarrow> marker_matches text (i + 1)))"
  by pat_completeness auto
termination
  by (relation "measure (\<lambda>(text, i). length text - i)")
     (auto simp: match_marker_def Let_def split: if_splits)

text \<open>
  The title expression \<open>/(test|it|describe)\s*\(\s*(['"`])(.*?)\2/gi\<close>: a keyword in any
  case, white space, an opening parenthesis, white space, a quote, then the shortest run of
  characters other than line terminators that the same quote ends. The match is the title
  \<open>m[3]\<close> and the length of the match.
\<close>

definition match_keyword :: "string \<Rightarrow> nat option" where
  "match_keyword s =
     (if map ascii_lower (take 4 s) = ''test'' then Some 4
      else if map ascii_lower (take 2 s) = ''it'' then Some 2
      else if map ascii_lower (take 8 s) = ''describe'' then Some 8
      else None)"

definition is_quote :: "char \<Rightarrow> bool" where
  "is_quote c = (c = CHR 0x27 \<or> c = CHR 0x22 \<or> c = CHR 0x60)"

definition match_title :: "string \<Rightarrow> (string \<times> nat) option" where
  "match_title s =
     (case match_keyword s of
        None \<Rightarrow> None
      | Some k \<Rightarrow>
         (let ws1 = takeWhile is_space (drop k s);
              r1 = dropWhile is_space (drop k s)
          in case r1 of
               [] \<Rightarrow> None
             | c # r2 \<Rightarrow>
                 if c \<noteq> CHR ''('' then None
                 else (let ws2 = takeWhile is_space r2;
                           r3 = dropWhile is_space r2
                       in case r3 of
                            [] \<Rightarrow> None
                          | q # r4 \<Rightarrow>
                              if \<not> is_quote q then None
                              else (let t = takeWhile (\<lambda>c. c \<noteq> q \<and> \<not> is_line_terminator c) r4;
                                        r5 = dropWhile (\<lambda>c. c \<noteq> q \<and> \<not> is_line_terminator c) r4
                                    in case r5 of
                                         [] \<Rightarrow> None
                                       | e # _ \<Rightarrow>
                                           if e = q
                                           then Some (t, k + length ws1 + 1 + length ws2 + 1 + length t + 1)
                                           else None))))"

function title_matches :: "string \<Rightarrow> nat \<Rightarrow> string list" where
  "title_matches text i =
     (if length text \<le> i then []
      else (case match_title (drop i text) of
              Some (t, n) \<Rightarrow> t # title_matches text (i + n)
            | None \<Rightarrow> title_matches text (i + 1)))"
  by pat_completeness auto
termination
  by (relation "measure (\<lambda>(text, i). length text - i)")
     (auto simp: match_title_def Let_def split: if_splits option.splits list.splits)

text \<open>\<open>t.includes(m)\<close>.\<close>

fun str_includes :: "string \<Rightarrow> string \<Rightarrow> bool" where
  "str_includes [] sub = (sub = [])"
| "str_includes (c # cs) sub = (take (length sub) (c # cs) = sub \<or> str_includes cs sub)"

text \<open>\<open>titles.find(t => t.includes(mt[0])) || ''\<close>.\<close>

definition find_title :: "string list \<Rightarrow> string \<Rightarrow> string" where
  "find_title titles m = (case find (\<lambda>t. str_includes t m) titles of Some t \<Rightarrow> str_or_empty t | None \<Rightarrow> [])"

text \<open>
  \<open>text.lastIndexOf(c, k)\<close>: the largest index not above \<open>k\<close> that holds \<open>c\<close>;
  \<open>None\<close> stands for \<open>-1\<close>.
\<close>

fun last_index_of :: "char \<Rightarrow> string \<Rightarrow> nat \<Rightarrow> nat option" where
  "last_index_of c s 0 = (if s \<noteq> [] \<and> s ! 0 = c then Some 0 else None)"
| "last_index_of c s (Suc k) =
     (if Suc k < length s \<and> s ! Suc k = c then Some (Suc k) else last_index_of c s k)"

text \<open>
  The line of a match at \<open>idx\<close>:
  \<open>before === -1 ? 1 : (text.substring(0, before).match(/\n/g)?.length || 0) + 1\<close>
  with \<open>before = text.lastIndexOf('\n', idx)\<close>. The number of matches of \<open>/\n/g\<close> is the
  number of newlines of the substring, \<open>null\<close> counting as 0.
\<close>

definition line_of :: "string \<Rightarrow> nat \<Rightarrow> nat" where
  "line_of text idx =
     (case last_index_of nl text idx of
        None \<Rightarrow> 1
      | Some before \<Rightarrow> length (filter (\<lambda>c. c = nl) (take before text)) + 1)"

text \<open>
  \<open>arr = hitsById.get(id) || []; arr.push(h); hitsById.set(id, arr)\<close>: a key already in
  the map keeps its place, a new key goes to the end.
\<close>

fun map_push :: "hits_map \<Rightarrow> string \<Rightarrow> hit \<Rightarrow> hits_map" where
  "map_push [] k h = [(k, [h])]"
| "map_push ((k', hs) # m) k h =
     (if k' = k then (k', hs @ [h]) # m else (k', hs) # map_push m k h)"

text \<open>
  The hits of one file, in the order the marker loop pushes them, each with its identifier.
\<close>

definition file_hits :: "string \<Rightarrow> string \<Rightarrow> (string \<times> hit) list" where
  "file_hits file text =
     (let titles = title_matches text 0
      in map (\<lambda>(idx, ident).
               (ident, \<lparr> hit_file = file, hit_line = line_of text idx,
                         hit_title = str_or_empty (find_title titles (marker_text ident)) \<rparr>))
             (marker_matches text 0))"

definition push_all :: "hits_map \<Rightarrow> (string \<times> hit) list \<Rightarrow> hits_map" where
  "push_all m hs = foldl (\<lambda>m (i, h). map_push m i h) m hs"

text \<open>
  \<open>scanTestsForBpmnTags\<close>: \<open>files\<close> is what \<open>glob.sync\<close> returned, \<open>rd\<close> gives the text of
  a file, \<open>None\<close> for a file that does not exist (any more), which the loop skips. The
  second result \<open>titlesByFile\<close>, which no caller reads, is left out.
\<close>

fun scan_files :: "(string \<Rightarrow> string option) \<Rightarrow> string list \<Rightarrow> hits_map \<Rightarrow> hits_map" where
  "scan_files rd [] m = m"
| "scan_files rd (f # fs) m =
     (case rd f of
        None \<Rightarrow> scan_files rd fs m
      | Some text \<Rightarrow> scan_files rd fs (push_all m (file_hits f text)))"

definition scanTestsForBpmnTags :: "(string \<Rightarrow> string option) \<Rightarrow> string list \<Rightarrow> hits_map" where
  "scanTestsForBpmnTags rd files = scan_files rd files []"

declare marker_matches.simps [simp del]
declare title_matches.simps [simp del]

text \<open>The specification's line number: one more than the newlines before the offset.\<close>

definition newlines_before :: "string \<Rightarrow> nat \<Rightarrow> nat" where
  "newlines_before text idx = length (filter (\<lambda>c. c = nl) (take idx text))"



section \<open>The node extractor\<close>

text \<open>The metadata every element starts with.\<close>

definition default_meta :: meta where
  "default_meta = \<lparr> playwrightRefs = [], jiraKeys = [], tags = [], priority = [],
     figmaUrl = [], figmaNodeId = [], figmaComponentKey = [], variant = [] \<rparr>"

text \<open>\<open>s.trim()\<close>.\<close>

definition js_trim :: "string \<Rightarrow> string" where
  "js_trim s = rev (dropWhile is_space (rev (dropWhile is_space s)))"

text \<open>
  \<open>s.split(re)\<close> for an expression that matches single characters (those with \<open>p\<close>):
  the pieces between the separators; an empty string gives one empty piece.
\<close>

fun split_on :: "(char \<Rightarrow> bool) \<Rightarrow> string \<Rightarrow> string list" where
  "split_on p [] = [[]]"
| "split_on p (c # cs) =
     (if p c then [] # split_on p cs
      else (case split_on p cs of [] \<Rightarrow> [[c]] | x # xs \<Rightarrow> (c # x) # xs))"

text \<open>The class \<open>[,|]\<close>.\<close>

definition is_sep :: "char \<Rightarrow> bool" where
  "is_sep c = (c = CHR '','' \<or> c = CHR ''|'')"

text \<open>\<open>kk.split(':').pop()\<close>: what follows the last colon.\<close>

definition strip_ns :: "string \<Rightarrow> string" where
  "strip_ns kk = last (split_on (\<lambda>c. c = CHR '':'') kk)"

text \<open>
  \<open>Object.entries\<close> and \<open>Object.values\<close> on any value that can reach them: an object gives
  its properties, an array and a string their elements under the decimal index, a number
  and a boolean nothing.
\<close>

fun dec_string :: "nat \<Rightarrow> string" where
  "dec_string n = (if n < 10 then [char_of (48 + n)] else dec_string (n div 10) @ [char_of (48 + n mod 10)])"

definition index_keys :: "nat \<Rightarrow> string list" where
  "index_keys n = map dec_string [0..<n]"

fun js_entries :: "jsval \<Rightarrow> (string \<times> jsval) list" where
  "js_entries (JObj kvs) = kvs"
| "js_entries (JArr vs) = zip (index_keys (length vs)) vs"
| "js_entries (JStr s) = zip (index_keys (length s)) (map (\<lambda>c. JStr [c]) s)"
| "js_entries (JNum n) = []"
| "js_entries (JBool b) = []"

definition js_values :: "jsval \<Rightarrow> jsval list" where
  "js_values v = map snd (js_entries v)"

text \<open>\<open>typeof v === 'string'\<close> and \<open>typeof v === 'object'\<close> (of a truthy value).\<close>

fun is_string :: "jsval \<Rightarrow> bool" where
  "is_string (JStr s) = True"
| "is_string _ = False"

fun is_object :: "jsval \<Rightarrow> bool" where
  "is_object (JObj kvs) = True"
| "is_object (JArr vs) = True"
| "is_object _ = False"

text \<open>
  The local function \<open>str\<close>: a string is trimmed; of an object the first value that is a
  string is taken, \<open>''\<close> if there is none, and trimmed; anything else gives \<open>''\<close>.
\<close>

fun str_of :: "jsval \<Rightarrow> string" where
  "str_of (JStr s) = js_trim s"
| "str_of (JNum n) = []"
| "str_of (JBool b) = []"
| "str_of v = (case find is_string (js_values v) of
                 Some (JStr val) \<Rightarrow> js_trim (str_or_empty val)
               | _ \<Rightarrow> js_trim [])"

text \<open>\<open>s.split(/[,|]/).map(s => s.trim()).filter(Boolean)\<close>.\<close>

definition split_list :: "string \<Rightarrow> string list" where
  "split_list s = filter (\<lambda>t. t \<noteq> []) (map js_trim (split_on is_sep s))"

text \<open>The \<open>switch (key)\<close> on one value \<open>x\<close>, as the new \<open>el.meta\<close>.\<close>

definition apply_key :: "string \<Rightarrow> jsval \<Rightarrow> meta \<Rightarrow> meta" where
  "apply_key key x m =
     (if key = ''playwrightRef'' then m\<lparr> playwrightRefs := playwrightRefs m @ [str_of x] \<rparr>
      else if key = ''jiraKeys'' then m\<lparr> jiraKeys := jiraKeys m @ split_list (str_of x) \<rparr>
      else if key = ''tags'' then m\<lparr> tags := tags m @ split_list (str_of x) \<rparr>
      else if key = ''priority'' then m\<lparr> priority := str_of x \<rparr>
      else if key = ''figmaUrl'' then m\<lparr> figmaUrl := str_of x \<rparr>
      else if key = ''figmaNodeId'' then m\<lparr> figmaNodeId := str_of x \<rparr>
      else if key = ''figmaComponentKey'' then m\<lparr> figmaComponentKey := str_of x \<rparr>
      else if key = ''variant'' then m\<lparr> variant := str_of x \<rparr>
      else m)"

text \<open>\<open>Array.isArray(v) ? v : [v]\<close>.\<close>

fun as_array :: "jsval \<Rightarrow> jsval list" where
  "as_array (JArr vs) = vs"
| "as_array v = [v]"

text \<open>
  The nested \<open>forEach\<close> loops over \<open>ext\<close> change nothing but \<open>el.meta\<close>, one \<open>switch\<close>
  at a time. \<open>ext_pairs ext\<close> lists the pairs \<open>(key, x)\<close> on which the \<open>switch\<close> runs, in
  the order of the loops: for every property \<open>(k, v)\<close> of \<open>ext\<close>, every truthy \<open>ch\<close> of
  \<open>v\<close> that is an object, every property \<open>(kk, vv)\<close> of \<open>ch\<close> and every truthy \<open>x\<close> of
  \<open>vv\<close>, with \<open>key\<close> the name \<open>kk\<close> without its namespace.
\<close>

definition child_pairs :: "jsval \<Rightarrow> (string \<times> jsval) list" where
  "child_pairs ch =
     (if is_object ch
      then concat (map (\<lambda>(kk, vv). map (\<lambda>x. (strip_ns kk, x)) (filter truthy (as_array vv)))
                       (js_entries ch))
      else [])"

definition ext_pairs :: "jsval \<Rightarrow> (string \<times> jsval) list" where
  "ext_pairs ext =
     concat (map (\<lambda>(k, v). concat (map child_pairs (filter truthy (as_array v))))
                 (js_entries ext))"

text \<open>
  The candidate element of an object node: \<open>ext\<close> is
  \<open>node['bpmn:extensionElements'] || node['extensionElements']\<close>, the metadata start from
  the empty record and run through the pairs of \<open>ext\<close> when \<open>ext\<close> is truthy, the name is
  \<open>node['@name'] || ''\<close>, and the element is pushed when \<open>node['@id']\<close> is truthy.
\<close>

text \<open>\<open>a || b\<close> on two property lookups.\<close>

definition opt_or :: "jsval option \<Rightarrow> jsval option \<Rightarrow> jsval option" where
  "opt_or a b = (if truthy_opt a then a else b)"

definition ext_of :: "(string \<times> jsval) list \<Rightarrow> jsval option" where
  "ext_of node = opt_or (map_of node ''bpmn:extensionElements'') (map_of node ''extensionElements'')"

definition node_pairs :: "(string \<times> jsval) list \<Rightarrow> (string \<times> jsval) list" where
  "node_pairs node =
     (case ext_of node of
        Some ext \<Rightarrow> if truthy ext then ext_pairs ext else []
      | None \<Rightarrow> [])"

definition node_meta :: "(string \<times> jsval) list \<Rightarrow> meta" where
  "node_meta node = foldl (\<lambda>m (key, x). apply_key key x m) default_meta (node_pairs node)"

definition name_of :: "(string \<times> jsval) list \<Rightarrow> jsval" where
  "name_of node = (case map_of node ''@name'' of Some v \<Rightarrow> or_empty v | None \<Rightarrow> JStr [])"

definition mk_el :: "jsval \<Rightarrow> (string \<times> jsval) list \<Rightarrow> string \<Rightarrow> el" where
  "mk_el i node name =
     \<lparr> el_id = i, el_type = name, el_name = name_of node, el_meta = node_meta node \<rparr>"

definition candidate :: "(string \<times> jsval) list \<Rightarrow> string \<Rightarrow> el list" where
  "candidate node name =
     (case map_of node ''@id'' of
        Some i \<Rightarrow> if truthy i then [mk_el i node name] else []
      | None \<Rightarrow> [])"

text \<open>\<open>k.startsWith('@')\<close>.\<close>

definition is_attr :: "string \<Rightarrow> bool" where
  "is_attr k = (take 1 k = ''@'')"

text \<open>
  The local function \<open>visit(node, name)\<close>, with the elements it pushes to \<open>out\<close> as its
  result: falsy values and values that are no objects push nothing, an array visits its
  elements under the same name, an object pushes its candidate and then visits every
  property that is no attribute under the property's name. \<open>visit_each\<close> is the loop over
  an array, \<open>visit_entries\<close> the loop over \<open>Object.entries(node)\<close>. No step of it throws.
\<close>

function visit :: "jsval \<Rightarrow> string \<Rightarrow> el list"
  and visit_each :: "jsval list \<Rightarrow> string \<Rightarrow> el list"
  and visit_entries :: "(string \<times> jsval) list \<Rightarrow> el list"
where
  "visit (JStr s) name = []"
| "visit (JNum n) name = []"
| "visit (JBool b) name = []"
| "visit (JArr vs) name = visit_each vs name"
| "visit (JObj node) name = candidate node name @ visit_entries node"
| "visit_each [] name = []"
| "visit_each (n # ns) name = visit n name @ visit_each ns name"
| "visit_entries [] = []"
| "visit_entries ((k, v) # kvs) = (if is_attr k then [] else visit v k) @ visit_entries kvs"
  by pat_completeness auto
termination
  by (relation "measure (\<lambda>x. case x of
          Inl (v, n) \<Rightarrow> 2 * size v
        | Inr (Inl (vs, n)) \<Rightarrow> 2 * size_list size vs + 1
        | Inr (Inr kvs) \<Rightarrow> 2 * size_list (size_prod (\<lambda>_. 0) size) kvs + 1)") auto

text \<open>\<open>collectBpmnElements(obj, tagName = '')\<close>.\<close>

definition collectBpmnElements :: "jsval \<Rightarrow> string \<Rightarrow> el list" where
  "collectBpmnElements obj tagName = visit obj tagName"

section \<open>The document tree and its pre-order\<close>












section \<open>The Tasks-only extractor\<close>

text \<open>
  \<open>scripts/generate-bpmn-test-report.mjs\<close> parses with \<open>preserveOrder\<close>: the document is
  an array of nodes, a node an object with its children under its tag name and its
  attributes under the key \<open>:@\<close>. \<open>js_lower\<close> is \<open>toLowerCase\<close> on one character below
  256.
\<close>

definition js_lower :: "char \<Rightarrow> char" where
  "js_lower c =
     (let n = (of_char c :: nat)
      in if (65 \<le> n \<and> n \<le> 90) \<or> (192 \<le> n \<and> n \<le> 222 \<and> n \<noteq> 215)
         then char_of (n + 32) else c)"

text \<open>\<open>s.startsWith(p)\<close> and \<open>s.endsWith(p)\<close>.\<close>

definition starts_with :: "string \<Rightarrow> string \<Rightarrow> bool" where
  "starts_with p s = (take (length p) s = p)"

definition ends_with :: "string \<Rightarrow> string \<Rightarrow> bool" where
  "ends_with p s = (length p \<le> length s \<and> drop (length s - length p) s = p)"

text \<open>\<open>Object.keys(v)\<close> and the property lookup \<open>v[k]\<close> on any value.\<close>

definition js_keys :: "jsval \<Rightarrow> string list" where
  "js_keys v = map fst (js_entries v)"

definition get_prop :: "jsval \<Rightarrow> string \<Rightarrow> jsval option" where
  "get_prop v k = map_of (js_entries v) k"

text \<open>The helpers \<open>nodeName\<close>, \<open>getAttr\<close> and \<open>childNodes\<close>.\<close>

definition nodeName :: "jsval \<Rightarrow> string" where
  "nodeName node =
     (if \<not> is_object node then []
      else (case find (\<lambda>k. \<not> starts_with '':@'' k) (js_keys node) of
              Some k \<Rightarrow> str_or_empty k
            | None \<Rightarrow> []))"

definition getAttr :: "jsval \<Rightarrow> string \<Rightarrow> jsval option" where
  "getAttr node name =
     (if \<not> is_object node then None
      else (case find (starts_with '':@'') (js_keys node) of
              None \<Rightarrow> None
            | Some k \<Rightarrow>
                (case get_prop node k of
                   Some attrs \<Rightarrow> if truthy attrs then get_prop attrs name else None
                 | None \<Rightarrow> None)))"

definition childNodes :: "jsval \<Rightarrow> jsval list" where
  "childNodes node =
     (if \<not> is_object node then []
      else (case get_prop node (nodeName node) of
              Some (JArr children) \<Rightarrow> children
            | _ \<Rightarrow> []))"

text \<open>A task \<open>{id, name, tag}\<close>, and what the loop body of \<open>walk\<close> pushes for one node.\<close>

record task =
  t_id :: jsval
  t_name :: jsval
  t_tag :: string

definition task_of :: "jsval \<Rightarrow> task list" where
  "task_of n =
     (let tag = nodeName n;
          local = map js_lower (strip_ns tag)
      in case getAttr n ''id'' of
           None \<Rightarrow> []
         | Some i \<Rightarrow>
             if truthy i \<and> ends_with ''task'' local
             then [\<lparr> t_id = i,
                     t_name = (case getAttr n ''name'' of Some v \<Rightarrow> or_empty v | None \<Rightarrow> JStr []),
                     t_tag = tag \<rparr>]
             else [])"

text \<open>
  The local function \<open>walk(nodes)\<close> of \<open>extractTasks\<close>, with the tasks it pushes as its
  result: a node without a tag name is skipped; otherwise the node's task, if any, then
  the tasks of its children, then the rest of the list.
\<close>

function walk :: "jsval list \<Rightarrow> task list" where
  "walk [] = []"
| "walk (n # nodes) =
     (if nodeName n = [] then walk nodes
      else task_of n @ walk (childNodes n) @ walk nodes)"
  by pat_completeness auto
termination
proof -
  have mo: "map_of kvs k = Some v \<Longrightarrow> size v \<le> size_list (size_prod (\<lambda>_. 0) size) kvs"
    for kvs :: "(string \<times> jsval) list" and k v
    by (induction kvs) (auto split: if_splits)
  have zi: "map_of (zip ks vs) k = Some v \<Longrightarrow> size v \<le> size_list size vs"
    for ks :: "string list" and vs :: "jsval list" and k v
  proof -
    assume "map_of (zip ks vs) k = Some v"
    then have "v \<in> set vs" by (meson in_set_zipE map_of_SomeD)
    then show "size v \<le> size_list size vs" by (induction vs) auto
  qed
  have b: "size_list size (childNodes n) \<le> size n" for n
  proof (cases n)
    case (JObj kvs)
    show ?thesis
    proof (cases "map_of kvs (nodeName n)")
      case None
      with JObj show ?thesis by (simp add: childNodes_def get_prop_def)
    next
      case (Some v)
      from mo[OF Some] Some JObj show ?thesis
        by (cases v) (auto simp: childNodes_def get_prop_def)
    qed
  next
    case (JArr vs)
    show ?thesis
    proof (cases "map_of (zip (index_keys (length vs)) vs) (nodeName n)")
      case None
      with JArr show ?thesis by (simp add: childNodes_def get_prop_def)
    next
      case (Some v)
      from zi[OF Some] Some JArr show ?thesis
        by (cases v) (auto simp: childNodes_def get_prop_def)
    qed
  qed (simp_all add: childNodes_def)
  have b': "size_list size (childNodes n) < Suc (size n + k)" for n k
    using b[of n] by simp
  show ?thesis
    by (relation "measure (size_list size)") (auto simp: b')
qed



section \<open>The main programs\<close>

text \<open>
  What a run does to the outside is a list of events in the order they happen, and its
  exit code. The file system and the libraries are an environment: whether a path exists,
  what reading a file gives (\<open>None\<close>: it throws), what the XML parser returns
  (\<open>None\<close>: it throws), the files \<open>glob.sync\<close> lists, and whether a directory can be
  made and a file written. Paths are relative to the root directory.
\<close>

datatype event = MkDir string | WriteFile string string | ConsoleError string | ConsoleLog string

fun is_write :: "event \<Rightarrow> bool" where
  "is_write (WriteFile p c) = True"
| "is_write _ = False"

text \<open>\<open>path.dirname\<close> of a relative path.\<close>

definition dirname :: "string \<Rightarrow> string" where
  "dirname p =
     (if CHR ''/'' \<in> set p then rev (drop 1 (dropWhile (\<lambda>c. c \<noteq> CHR ''/'') (rev p))) else ''.'')"

record env =
  exists_path :: "string \<Rightarrow> bool"
  read_text :: "string \<Rightarrow> string option"
  parse_xml :: "string \<Rightarrow> jsval option"
  glob_files :: "string list"
  mkdir_ok :: "string \<Rightarrow> bool"
  write_ok :: "string \<Rightarrow> bool"

text \<open>
  The three serialisations \<open>toCSV\<close>, \<open>toHTML\<close> (which reads the clock) and
  \<open>JSON.stringify\<close> are parameters of the run.
\<close>

record renderers =
  toCSV :: "row list \<Rightarrow> string"
  toHTML :: "row list \<Rightarrow> orphan list \<Rightarrow> string"
  stringify :: "report \<Rightarrow> string"

definition BPMN_PATH :: string where "BPMN_PATH = ''ci_test.bpmn''"
definition OUT_ROOT_HTML :: string where "OUT_ROOT_HTML = ''bpmn-test-report.html''"
definition OUT_ROOT_CSV :: string where "OUT_ROOT_CSV = ''bpmn-test-report.csv''"
definition OUT_ROOT_JSON :: string where "OUT_ROOT_JSON = ''bpmn-test-report.json''"
definition OUT_DIR :: string where "OUT_DIR = ''reports/coverage''"
definition OUT_HTML :: string where "OUT_HTML = ''reports/coverage/index.html''"
definition OUT_CSV :: string where "OUT_CSV = ''reports/coverage/bpmn-test-report.csv''"
definition OUT_JSON :: string where "OUT_JSON = ''reports/coverage/bpmn-test-report.json''"

text \<open>The messages of the console; the cross mark is U+274C in UTF-8.\<close>

definition cross_mark :: string where "cross_mark = [CHR 0xE2, CHR 0x9D, CHR 0x8C]"

definition missing_message :: string where
  "missing_message = cross_mark @ '' BPMN-fil saknas: '' @ BPMN_PATH"

definition created_message :: string where
  "created_message = ''Skapade rapporter''"

definition uncaught_message :: string where
  "uncaught_message = ''Uncaught exception''"

text \<open>
  A sequence of \<open>writeText(p, content)\<close> calls: each makes the directory of \<open>p\<close> and
  writes \<open>p\<close>; the first that throws ends the sequence. The result is the events and
  whether all calls returned.
\<close>

fun writeText_all :: "env \<Rightarrow> (string \<times> string) list \<Rightarrow> event list \<times> bool" where
  "writeText_all e [] = ([], True)"
| "writeText_all e ((p, content) # ws) =
     (if \<not> mkdir_ok e (dirname p) then ([], False)
      else if \<not> write_ok e p then ([MkDir (dirname p)], False)
      else (case writeText_all e ws of
              (evs, ok) \<Rightarrow> (MkDir (dirname p) # WriteFile p content # evs, ok)))"

text \<open>\<open>bpmn['bpmn:definitions'] || bpmn.definitions || bpmn\<close>.\<close>

definition or_else :: "jsval option \<Rightarrow> jsval \<Rightarrow> jsval" where
  "or_else a b = (case a of Some v \<Rightarrow> if truthy v then v else b | None \<Rightarrow> b)"

definition defs_of :: "jsval \<Rightarrow> jsval" where
  "defs_of bpmn =
     or_else (get_prop bpmn ''bpmn:definitions'') (or_else (get_prop bpmn ''definitions'') bpmn)"

text \<open>
  The scanner inside \<open>main\<close> skips a listed file that does not exist and throws when an
  existing one cannot be read.
\<close>

definition scan_read :: "env \<Rightarrow> string \<Rightarrow> string option" where
  "scan_read e f = (if exists_path e f then read_text e f else None)"

definition scan_throws :: "env \<Rightarrow> bool" where
  "scan_throws e = (\<exists>f \<in> set (glob_files e). exists_path e f \<and> read_text e f = None)"

text \<open>
  \<open>main()\<close> of the report generator. An uncaught exception ends the process with exit
  code 1.
\<close>

definition main :: "renderers \<Rightarrow> env \<Rightarrow> nat \<times> event list" where
  "main r e =
     (if \<not> exists_path e BPMN_PATH then (1, [ConsoleError missing_message])
      else (case read_text e BPMN_PATH of
              None \<Rightarrow> (1, [ConsoleError uncaught_message])
            | Some xml \<Rightarrow>
               (case parse_xml e xml of
                  None \<Rightarrow> (1, [ConsoleError uncaught_message])
                | Some bpmn \<Rightarrow>
                    if scan_throws e then (1, [ConsoleError uncaught_message])
                    else
                      (let elements = collectBpmnElements (defs_of bpmn) [];
                           hitsById = scanTestsForBpmnTags (scan_read e) (glob_files e);
                           rep = buildReport elements hitsById;
                           csv = toCSV r (rows rep);
                           html = toHTML r (rows rep) (orphans rep);
                           json = stringify r rep
                       in case writeText_all e
                                 [(OUT_ROOT_CSV, csv), (OUT_ROOT_HTML, html), (OUT_ROOT_JSON, json),
                                  (OUT_CSV, csv), (OUT_HTML, html), (OUT_JSON, json)] of
                            (evs, True) \<Rightarrow> (0, evs @ [ConsoleLog created_message])
                          | (evs, False) \<Rightarrow> (1, evs @ [ConsoleError uncaught_message])))))"


section \<open>The Tasks-only script\<close>

text \<open>\<open>String(v)\<close>, as the template \<open>`[bpmn:${id}]`\<close> applies it.\<close>

fun int_string :: "int \<Rightarrow> string" where
  "int_string n = (if n < 0 then ''-'' @ dec_string (nat (- n)) else dec_string (nat n))"

function js_to_string :: "jsval \<Rightarrow> string"
  and js_to_strings :: "jsval list \<Rightarrow> string list"
where
  "js_to_string (JStr s) = s"
| "js_to_string (JNum n) = int_string n"
| "js_to_string (JBool b) = (if b then ''true'' else ''false'')"
| "js_to_string (JArr vs) = join '','' (js_to_strings vs)"
| "js_to_string (JObj kvs) = ''[object Object]''"
| "js_to_strings [] = []"
| "js_to_strings (v # vs) = js_to_string v # js_to_strings vs"
  by pat_completeness auto
termination
  by (relation "measure (\<lambda>x. case x of Inl v \<Rightarrow> 2 * size v | Inr vs \<Rightarrow> 2 * size_list size vs + 1)")
     auto

text \<open>
  \<open>scanTestMarkers(ids)\<close>: the map \<open>new Map(ids.map(id => [id, []]))\<close> holds every id once,
  at its first place; for every listed file with a test extension and every id (as often
  as it occurs in \<open>ids\<close>) the file is pushed to the id's list when its text includes the
  marker of the id. A file that cannot be read counts as empty.
\<close>

type_synonym markers_map = "(jsval \<times> string list) list"

fun markers_init :: "jsval list \<Rightarrow> markers_map" where
  "markers_init [] = []"
| "markers_init (i # ids) = (i, []) # filter (\<lambda>(k, v). k \<noteq> i) (markers_init ids)"

fun markers_push :: "markers_map \<Rightarrow> jsval \<Rightarrow> string \<Rightarrow> markers_map" where
  "markers_push [] i rel = []"
| "markers_push ((k, fs) # m) i rel =
     (if k = i then (k, fs @ [rel]) # m else (k, fs) # markers_push m i rel)"

definition is_test_file :: "string \<Rightarrow> bool" where
  "is_test_file f = (ends_with ''.ts'' f \<or> ends_with ''.js'' f \<or> ends_with ''.tsx'' f \<or> ends_with ''.jsx'' f)"

definition scan_file_markers :: "string \<Rightarrow> string \<Rightarrow> jsval list \<Rightarrow> markers_map \<Rightarrow> markers_map" where
  "scan_file_markers rel txt ids m =
     foldl (\<lambda>m i. if str_includes txt (''[bpmn:'' @ js_to_string i @ '']'')
                      then markers_push m i rel else m) m ids"

definition readTextIfExists :: "(string \<Rightarrow> string option) \<Rightarrow> string \<Rightarrow> string" where
  "readTextIfExists rd p = (case rd p of Some t \<Rightarrow> t | None \<Rightarrow> [])"

definition scanTestMarkers :: "(string \<Rightarrow> string option) \<Rightarrow> string list \<Rightarrow> jsval list \<Rightarrow> markers_map" where
  "scanTestMarkers rd listed ids =
     foldl (\<lambda>m f. scan_file_markers f (readTextIfExists rd f) ids m)
           (markers_init ids) (filter is_test_file listed)"

text \<open>
  A row of the script, \<open>{id, name, type, hasTests, testFiles, playwrightRefs}\<close>, as the
  body of \<open>tasks.map(t => ...)\<close> builds it from the markers and from \<open>refsById\<close>, whose
  keys are strings.
\<close>

record srow =
  s_id :: jsval
  s_name :: jsval
  s_type :: string
  hasTests :: bool
  testFiles :: "string list"
  s_playwrightRefs :: "string list"

definition script_row :: "markers_map \<Rightarrow> (string \<times> string list) list \<Rightarrow> task \<Rightarrow> srow" where
  "script_row markers refsById t =
     (let testFiles = (case map_of markers (t_id t) of Some fs \<Rightarrow> fs | None \<Rightarrow> []);
          playwrightRefs = (case t_id t of
                              JStr i \<Rightarrow> (case map_of refsById i of Some rs \<Rightarrow> rs | None \<Rightarrow> [])
                            | _ \<Rightarrow> [])
      in \<lparr> s_id = t_id t,
           s_name = or_empty (t_name t),
           s_type = str_or_empty (t_tag t),
           hasTests = (length testFiles > 0 \<or> length playwrightRefs > 0),
           testFiles = testFiles,
           s_playwrightRefs = playwrightRefs \<rparr>)"

text \<open>
  The environment of the script: whether \<open>fs.mkdir\<close> of a directory succeeds, what
  \<open>fs.readFile\<close> gives, the files \<open>listFilesRec\<close> finds under the test directory, whether
  \<open>fs.writeFile\<close> succeeds. Its parameters: the XML parser if it is installed (\<open>None\<close>
  inside: it throws), the regular-expression scans that stand in for it and that read the
  \<open>playwrightRef\<close> values, the sort by \<open>localeCompare\<close>, and the serialisations.
\<close>

record script_env =
  s_mkdir_ok :: "string \<Rightarrow> bool"
  s_read :: "string \<Rightarrow> string option"
  s_listed :: "string list"
  s_write_ok :: "string \<Rightarrow> bool"

record script_deps =
  parseXML :: "(string \<Rightarrow> jsval list option) option"
  regex_tasks :: "string \<Rightarrow> task list"
  refs_of :: "string \<Rightarrow> (string \<times> string list) list"
  sort_rows :: "srow list \<Rightarrow> srow list"
  s_toCSV :: "srow list \<Rightarrow> string"
  s_toHTML :: "srow list \<Rightarrow> nat \<Rightarrow> nat \<Rightarrow> nat \<Rightarrow> string"
  s_json :: "nat \<Rightarrow> nat \<Rightarrow> nat \<Rightarrow> srow list \<Rightarrow> string"

definition extractTasks :: "script_deps \<Rightarrow> string \<Rightarrow> task list option" where
  "extractTasks d xml =
     (case parseXML d of
        Some parse \<Rightarrow> (case parse xml of Some doc \<Rightarrow> Some (walk doc) | None \<Rightarrow> None)
      | None \<Rightarrow> Some (regex_tasks d xml))"

fun writeFile_all :: "script_env \<Rightarrow> (string \<times> string) list \<Rightarrow> event list \<times> bool" where
  "writeFile_all e [] = ([], True)"
| "writeFile_all e ((p, content) # ws) =
     (if \<not> s_write_ok e p then ([], False)
      else (case writeFile_all e ws of (evs, ok) \<Rightarrow> (WriteFile p content # evs, ok)))"

definition script_missing_message :: string where
  "script_missing_message = cross_mark @ '' Hittar inte BPMN-filen: '' @ BPMN_PATH"

definition script_failed_message :: string where
  "script_failed_message = cross_mark @ '' Fel vid generering:''"

definition script_done_message :: string where
  "script_done_message = ''Skrev rapport till''"

text \<open>
  The main function of the script: every exception is caught by \<open>.catch\<close>, which ends the
  process with exit code 1.
\<close>

definition script_main :: "script_deps \<Rightarrow> script_env \<Rightarrow> nat \<times> event list" where
  "script_main d e =
     (if \<not> s_mkdir_ok e OUT_DIR then (1, [ConsoleError script_failed_message])
      else
        (let bpmnXML = readTextIfExists (s_read e) BPMN_PATH
         in if bpmnXML = [] then (1, [MkDir OUT_DIR, ConsoleError script_missing_message])
            else (case extractTasks d bpmnXML of
                    None \<Rightarrow> (1, [MkDir OUT_DIR, ConsoleError script_failed_message])
                  | Some tasks \<Rightarrow>
                      (let refsById = refs_of d bpmnXML;
                           ids = map t_id tasks;
                           markers = scanTestMarkers (s_read e) (s_listed e) ids;
                           rows = sort_rows d (map (script_row markers refsById) tasks);
                           total = length rows;
                           covered = length (filter hasTests rows);
                           uncovered = total - covered
                       in case writeFile_all e
                                 [(OUT_JSON, s_json d total covered uncovered rows),
                                  (OUT_CSV, s_toCSV d rows),
                                  (OUT_HTML, s_toHTML d rows total covered uncovered)] of
                            (evs, True) \<Rightarrow> (0, MkDir OUT_DIR # evs @ [ConsoleLog script_done_message])
                          | (evs, False) \<Rightarrow>
                              (1, MkDir OUT_DIR # evs @ [ConsoleError script_failed_message])))))"






section \<open>Example data\<close>


definition hB :: hit where
  "hB = \<lparr> hit_file = ''tests/b.spec.ts'', hit_line = 7, hit_title = [] \<rparr>"

definition elT :: el where
  "elT = \<lparr> el_id = JStr ''T'', el_type = ''bpmn:task'', el_name = JStr ''Pay'',
           el_meta = default_meta \<rparr>"






definition env_no_doc :: env where
  "env_no_doc = \<lparr> exists_path = (\<lambda>p. p = ''tests/a.spec.ts''),
                  read_text = (\<lambda>p. if p = ''tests/a.spec.ts'' then Some ''test(\"pay [bpmn:A]\")'' else None),
                  parse_xml = (\<lambda>x. Some (JObj [])),
                  glob_files = [''tests/a.spec.ts''],
                  mkdir_ok = (\<lambda>p. True),
                  write_ok = (\<lambda>p. True) \<rparr>"

definition plain_renderers :: renderers where
  "plain_renderers = \<lparr> toCSV = (\<lambda>rs. concat (map row_coverage rs)),
                        toHTML = (\<lambda>rs os. concat (map row_tests rs)),
                        stringify = (\<lambda>rep. concat (map row_type (rows rep))) \<rparr>"

definition script_env_no_doc :: script_env where
  "script_env_no_doc = \<lparr> s_mkdir_ok = (\<lambda>p. True),
                         s_read = (\<lambda>p. if p = ''tests/a.spec.ts'' then Some ''test(\"pay [bpmn:A]\")'' else None),
                         s_listed = [''tests/a.spec.ts''],
                         s_write_ok = (\<lambda>p. True) \<rparr>"

definition plain_deps :: script_deps where
  "plain_deps = \<lparr> parseXML = Some (\<lambda>x. Some []),
                   regex_tasks = (\<lambda>x. []),
                   refs_of = (\<lambda>x. []),
                   sort_rows = (\<lambda>rs. rs),
                   s_toCSV = (\<lambda>rs. []),
                   s_toHTML = (\<lambda>rs a b c. []),
                   s_json = (\<lambda>a b c rs. []) \<rparr>"


section \<open>Properties of the reconciler\<close>



lemma row_hits_JStr: "el_id e = JStr i \<Longrightarrow> row_hits m e = group_of m i"
  by (simp add: row_hits_def group_of_def)










text \<open>
  C10. When two nodes of the list share an id, the report has one row for each of them
  (a row per node, at the node's position), and each of the two rows is attached to the
  whole group of hits for that id, so a hit of the group is in both rows.
\<close>

theorem duplicate_ids_share_group:
  assumes "k < length bpmnEls" and "l < length bpmnEls" and "k \<noteq> l"
    and "el_id (bpmnEls ! k) = JStr i" and "el_id (bpmnEls ! l) = JStr i"
  shows "length (rows (buildReport bpmnEls hitsById)) = length bpmnEls
       \<and> rows (buildReport bpmnEls hitsById) ! k = mk_row hitsById (bpmnEls ! k)
       \<and> rows (buildReport bpmnEls hitsById) ! l = mk_row hitsById (bpmnEls ! l)
       \<and> row_id (rows (buildReport bpmnEls hitsById) ! k) = JStr i
       \<and> row_id (rows (buildReport bpmnEls hitsById) ! l) = JStr i
       \<and> row_hits hitsById (bpmnEls ! k) = group_of hitsById i
       \<and> row_hits hitsById (bpmnEls ! l) = group_of hitsById i
       \<and> row_tests (rows (buildReport bpmnEls hitsById) ! k)
           = join '' | '' (map test_label (group_of hitsById i))
       \<and> row_tests (rows (buildReport bpmnEls hitsById) ! l)
           = join '' | '' (map test_label (group_of hitsById i))"
  using assms by (simp add: buildReport_def mk_row_def row_hits_JStr Let_def)

theorem duplicate_ids_share_group_witness:
  "(0::nat) < length [elT, elT\<lparr>el_name := JStr ''Pay again''\<rparr>]
   \<and> (1::nat) < length [elT, elT\<lparr>el_name := JStr ''Pay again''\<rparr>] \<and> (0::nat) \<noteq> 1
   \<and> el_id ([elT, elT\<lparr>el_name := JStr ''Pay again''\<rparr>] ! 0) = JStr ''T''
   \<and> el_id ([elT, elT\<lparr>el_name := JStr ''Pay again''\<rparr>] ! 1) = JStr ''T''
   \<and> length (rows (buildReport [elT, elT\<lparr>el_name := JStr ''Pay again''\<rparr>] [(''T'', [hB])])) = 2
   \<and> row_tests (rows (buildReport [elT, elT\<lparr>el_name := JStr ''Pay again''\<rparr>] [(''T'', [hB])]) ! 0)
       = ''tests/b.spec.ts''
   \<and> row_tests (rows (buildReport [elT, elT\<lparr>el_name := JStr ''Pay again''\<rparr>] [(''T'', [hB])]) ! 1)
       = ''tests/b.spec.ts''
   \<and> hB \<in> set (row_hits [(''T'', [hB])] ([elT, elT\<lparr>el_name := JStr ''Pay again''\<rparr>] ! 0))
   \<and> hB \<in> set (row_hits [(''T'', [hB])] ([elT, elT\<lparr>el_name := JStr ''Pay again''\<rparr>] ! 1))"
proof -
  let ?els = "[elT, elT\<lparr>el_name := JStr ''Pay again''\<rparr>]"
  let ?m = "[(''T'', [hB])]"
  have p: "(0::nat) < length ?els" "(1::nat) < length ?els" "(0::nat) \<noteq> 1"
    "el_id (?els ! 0) = JStr ''T''" "el_id (?els ! 1) = JStr ''T''"
    by (simp_all add: elT_def)
  have g: "group_of ?m ''T'' = [hB]" by (simp add: group_of_def)
  have l: "test_label hB = ''tests/b.spec.ts''" by (simp add: test_label_def hB_def)
  note c = duplicate_ids_share_group [OF p, of ?m]
  have n: "length (rows (buildReport ?els ?m)) = 2" using c by simp
  have t0: "row_tests (rows (buildReport ?els ?m) ! 0)
      = join '' | '' (map test_label (group_of ?m ''T''))"
    using c by blast
  have t1: "row_tests (rows (buildReport ?els ?m) ! 1)
      = join '' | '' (map test_label (group_of ?m ''T''))"
    using c by blast
  have h0: "row_hits ?m (?els ! 0) = group_of ?m ''T''" using c by blast
  have h1: "row_hits ?m (?els ! 1) = group_of ?m ''T''" using c by blast
  have t0': "row_tests (rows (buildReport ?els ?m) ! 0) = ''tests/b.spec.ts''"
    by (simp only: t0 g l list.map join.simps)
  have t1': "row_tests (rows (buildReport ?els ?m) ! 1) = ''tests/b.spec.ts''"
    by (simp only: t1 g l list.map join.simps)
  have m0: "hB \<in> set (row_hits ?m (?els ! 0))" by (simp only: h0 g) simp
  have m1: "hB \<in> set (row_hits ?m (?els ! 1))" by (simp only: h1 g) simp
  from p n t0' t1' m0 m1 show ?thesis by blast
qed

section \<open>Properties of the reference scanner\<close>





lemma str_includes_suffix: "\<not> str_includes (c # g) sub \<Longrightarrow> \<not> str_includes g sub"
  by simp










lemma file_hits_lines:
  "map (hit_line \<circ> snd) (file_hits f text) = map (line_of text \<circ> fst) (marker_matches text 0)"
  by (simp add: file_hits_def Let_def case_prod_unfold comp_def)


lemma match_marker_sound:
  assumes "match_marker s = Some (ident, n)"
  shows "ident \<noteq> [] \<and> CHR '']'' \<notin> set ident \<and> n = length (marker_text ident)
         \<and> take n s = marker_text ident"
proof -
  let ?P = "\<lambda>c. c \<noteq> CHR '']''"
  from assms have p: "take 6 s = ''[bpmn:''"
    and i: "ident = takeWhile ?P (drop 6 s)"
    and ne: "ident \<noteq> []" and r: "dropWhile ?P (drop 6 s) \<noteq> []" and n: "n = 6 + length ident + 1"
    by (auto simp: match_marker_def Let_def split: if_splits)
  have nb: "CHR '']'' \<notin> set ident" unfolding i by (auto dest: set_takeWhileD)
  from r have "hd (dropWhile ?P (drop 6 s)) = CHR '']''"
    using hd_dropWhile[of ?P "drop 6 s"] by auto
  with r obtain rest where d: "dropWhile ?P (drop 6 s) = CHR '']'' # rest"
    by (cases "dropWhile ?P (drop 6 s)") auto
  have "drop 6 s = ident @ CHR '']'' # rest"
    using takeWhile_dropWhile_id[of ?P "drop 6 s"] i d by simp
  then have "s = ''[bpmn:'' @ ident @ CHR '']'' # rest"
    using p append_take_drop_id[of 6 s] by simp
  then have s: "s = marker_text ident @ rest" by (simp add: marker_text_def)
  have l: "n = length (marker_text ident)" by (simp add: n marker_text_def)
  have "take n s = marker_text ident" unfolding l by (subst s) simp
  with ne nb l show ?thesis by simp
qed

lemma marker_matches_sound:
  "(p, ident) \<in> set (marker_matches tx i) \<Longrightarrow>
     ident \<noteq> [] \<and> CHR '']'' \<notin> set ident
     \<and> take (length (marker_text ident)) (drop p tx) = marker_text ident"
proof (induction tx i rule: marker_matches.induct)
  case (1 tx i)
  show ?case
  proof (cases "length tx \<le> i")
    case True
    with "1.prems" show ?thesis by (subst (asm) marker_matches.simps) simp
  next
    case False
    show ?thesis
    proof (cases "match_marker (drop i tx)")
      case None
      with False "1.prems" have "(p, ident) \<in> set (marker_matches tx (i + 1))"
        by (subst (asm) marker_matches.simps) simp
      with "1.IH"(1)[OF False None] show ?thesis by simp
    next
      case (Some a)
      obtain x n where a: "a = (x, n)" by (cases a)
      from False Some a "1.prems"
      have "(p, ident) = (i, x) \<or> (p, ident) \<in> set (marker_matches tx (i + n))"
        by (subst (asm) marker_matches.simps) simp
      then show ?thesis
      proof
        assume "(p, ident) = (i, x)"
        with match_marker_sound[OF Some[unfolded a]] show ?thesis by auto
      next
        assume "(p, ident) \<in> set (marker_matches tx (i + n))"
        with "1.IH"(2)[OF False Some a[symmetric]] show ?thesis by simp
      qed
    qed
  qed
qed


lemma last_index_of_None:
  "last_index_of c s k = None \<Longrightarrow> filter (\<lambda>x. x = c) (take (Suc k) s) = []"
proof (induction k)
  case 0
  then show ?case by (cases s) (auto split: if_splits)
next
  case (Suc k)
  then have a: "\<not> (Suc k < length s \<and> s ! Suc k = c)" and b: "last_index_of c s k = None"
    by (auto split: if_splits)
  show ?case
  proof (cases "Suc k < length s")
    case True
    with a have "s ! Suc k \<noteq> c" by simp
    with True Suc.IH[OF b] show ?thesis by (simp add: take_Suc_conv_app_nth[of "Suc k"])
  next
    case False
    with Suc.IH[OF b] show ?thesis by simp
  qed
qed

lemma last_index_of_Some:
  "last_index_of c s k = Some b \<Longrightarrow>
     filter (\<lambda>x. x = c) (take (Suc k) s) = filter (\<lambda>x. x = c) (take b s) @ [c]"
proof (induction k)
  case 0
  then show ?case by (cases s) (auto split: if_splits)
next
  case (Suc k)
  show ?case
  proof (cases "Suc k < length s \<and> s ! Suc k = c")
    case True
    with Suc.prems have "b = Suc k" by simp
    with True show ?thesis by (simp add: take_Suc_conv_app_nth[of "Suc k"])
  next
    case False
    with Suc.prems have b: "last_index_of c s k = Some b" by auto
    show ?thesis
    proof (cases "Suc k < length s")
      case True
      with False have "s ! Suc k \<noteq> c" by simp
      with True Suc.IH[OF b] show ?thesis by (simp add: take_Suc_conv_app_nth[of "Suc k"])
    next
      case False
      with Suc.IH[OF b] show ?thesis by simp
    qed
  qed
qed

lemma line_of_value:
  assumes "idx < length tx" and "tx ! idx \<noteq> nl"
  shows "line_of tx idx
           = (if newlines_before tx idx = 0 then 1 else newlines_before tx idx)"
proof -
  have e: "filter (\<lambda>x. x = nl) (take (Suc idx) tx) = filter (\<lambda>x. x = nl) (take idx tx)"
    using assms by (simp add: take_Suc_conv_app_nth)
  show ?thesis
  proof (cases "last_index_of nl tx idx")
    case None
    from last_index_of_None[OF None] e show ?thesis
      by (simp add: line_of_def None newlines_before_def)
  next
    case (Some b)
    from last_index_of_Some[OF Some] e
    have "length (filter (\<lambda>x. x = nl) (take idx tx))
        = length (filter (\<lambda>x. x = nl) (take b tx)) + 1"
      by simp
    then show ?thesis by (simp add: line_of_def Some newlines_before_def)
  qed
qed



lemma file_hits_length: "length (file_hits f tx) = length (marker_matches tx 0)"
  by (simp add: file_hits_def Let_def)


lemma map_push_keys:
  "map fst (map_push m k h) = (if k \<in> set (map fst m) then map fst m else map fst m @ [k])"
  by (induction m k h rule: map_push.induct) auto

lemma wf_map_push: "wf_map m \<Longrightarrow> wf_map (map_push m k h)"
  by (simp add: wf_map_def map_push_keys)

lemma group_of_push:
  "group_of (map_push m k h) i = (if i = k then group_of m i @ [h] else group_of m i)"
  by (induction m k h rule: map_push.induct) (auto simp: group_of_def)


lemma wf_map_push_all: "wf_map m \<Longrightarrow> wf_map (push_all m hs)"
  unfolding push_all_def
  by (induction hs arbitrary: m) (auto simp: wf_map_push)

lemma group_of_push_all:
  "group_of (push_all m hs) i = group_of m i @ map snd (filter (\<lambda>(j, h). j = i) hs)"
  unfolding push_all_def
  by (induction hs arbitrary: m) (auto simp: group_of_push)


lemma wf_map_scan_files: "wf_map m \<Longrightarrow> wf_map (scan_files rd fs m)"
  by (induction fs arbitrary: m) (auto simp: wf_map_push_all split: option.splits)

lemma wf_map_scan: "wf_map (scanTestsForBpmnTags rd files)"
proof -
  have "wf_map []" by (simp add: wf_map_def)
  then show ?thesis unfolding scanTestsForBpmnTags_def by (rule wf_map_scan_files)
qed

lemma scan_one_file:
  "scanTestsForBpmnTags (\<lambda>p. if p = f then Some tx else None) [f] = push_all [] (file_hits f tx)"
  by (simp add: scanTestsForBpmnTags_def)

text \<open>
  C5 (the code differs). The claim: the line of a hit is one more than the number of newlines
  before the marker. The code counts the newlines before the last newline that precedes
  the marker, so from the second line on it reports one less: a marker right behind one
  newline is on line 2 and gets line 1. \<open>line_of_value\<close> above is the general form.
\<close>

theorem marker_on_second_line_gets_line_1:
  "scanTestsForBpmnTags (\<lambda>p. if p = ''tests/a.spec.ts'' then Some (nl # ''[bpmn:A]'') else None)
       [''tests/a.spec.ts'']
     = [(''A'', [\<lparr> hit_file = ''tests/a.spec.ts'', hit_line = 1, hit_title = [] \<rparr>])]
   \<and> marker_matches (nl # ''[bpmn:A]'') 0 = [(1, ''A'')]
   \<and> 1 + newlines_before (nl # ''[bpmn:A]'') 1 = 2"
proof -
  have mm: "marker_matches (nl # ''[bpmn:A]'') 0 = [(1, ''A'')]" by code_simp
  have tm: "title_matches (nl # ''[bpmn:A]'') 0 = []" by code_simp
  have l: "line_of (nl # ''[bpmn:A]'') (Suc 0) = 1" by code_simp
  have n: "1 + newlines_before (nl # ''[bpmn:A]'') 1 = 2" by (simp add: newlines_before_def)
  have "file_hits ''tests/a.spec.ts'' (nl # ''[bpmn:A]'')
     = [(''A'', \<lparr> hit_file = ''tests/a.spec.ts'', hit_line = 1, hit_title = [] \<rparr>)]"
    by (simp add: file_hits_def mm tm l find_title_def str_or_empty_def)
  then have "scanTestsForBpmnTags (\<lambda>p. if p = ''tests/a.spec.ts'' then Some (nl # ''[bpmn:A]'') else None)
       [''tests/a.spec.ts'']
     = [(''A'', [\<lparr> hit_file = ''tests/a.spec.ts'', hit_line = 1, hit_title = [] \<rparr>])]"
    by (simp only: scan_one_file) (simp add: push_all_def)
  with mm n show ?thesis by simp
qed



section \<open>Properties of the node extractor\<close>








lemma split_on_length: "length (split_on p s) = Suc (length (filter p s))"
  by (induction s) (auto split: list.splits)


lemma js_trim_Nil: "js_trim [] = []"
  by (simp add: js_trim_def)










text \<open>
  The keys are read two levels below \<open>extensionElements\<close>: in the children of its
  children. A \<open>tags\<close> element that is itself a child of \<open>extensionElements\<close> is not read.
  Two nodes with the same id both give their element.
\<close>

lemma direct_extension_child_not_read:
  "map (tags \<circ> el_meta)
     (collectBpmnElements
        (JObj [(''@id'', JStr ''T1''),
               (''bpmn:extensionElements'', JObj [(''test:tags'', JStr ''a, b|c'')])]) [])
   = [[]]"
  by code_simp

lemma collect_keeps_duplicate_ids:
  "map el_id
     (collectBpmnElements
        (JObj [(''bpmn:task'', JArr [JObj [(''@id'', JStr ''T'')], JObj [(''@id'', JStr ''T'')]])]) [])
   = [JStr ''T'', JStr ''T'']"
  by code_simp









section \<open>Properties of the main programs and of the Tasks-only script\<close>


lemma task_of_only_tasks:
  "t \<in> set (task_of n) \<Longrightarrow>
     truthy (t_id t) \<and> getAttr n ''id'' = Some (t_id t)
     \<and> ends_with ''task'' (map js_lower (strip_ns (nodeName n)))"
  by (auto simp: task_of_def Let_def split: option.splits if_splits)

text \<open>
  C9. When the document file is absent, the run ends with exit code 1 before anything is
  read, parsed or extracted, and writes no file: the report generator prints its message
  and exits; the Tasks-only script, which first makes its output directory, reads nothing,
  prints its message and exits.
\<close>

theorem missing_document_aborts:
  "(\<not> exists_path e BPMN_PATH \<longrightarrow>
       main r e = (1, [ConsoleError missing_message])
       \<and> fst (main r e) \<noteq> 0 \<and> filter is_write (snd (main r e)) = [])
   \<and> (s_read se BPMN_PATH = None \<longrightarrow>
       script_main d se
         = (if s_mkdir_ok se OUT_DIR then (1, [MkDir OUT_DIR, ConsoleError script_missing_message])
            else (1, [ConsoleError script_failed_message]))
       \<and> fst (script_main d se) \<noteq> 0 \<and> filter is_write (snd (script_main d se)) = [])"
  by (simp add: main_def script_main_def readTextIfExists_def)

theorem missing_document_aborts_witness:
  "\<not> exists_path env_no_doc BPMN_PATH
   \<and> main plain_renderers env_no_doc = (1, [ConsoleError missing_message])
   \<and> s_read script_env_no_doc BPMN_PATH = None
   \<and> script_main plain_deps script_env_no_doc
        = (1, [MkDir OUT_DIR, ConsoleError script_missing_message])"
proof -
  have a: "\<not> exists_path env_no_doc BPMN_PATH" by (simp add: env_no_doc_def BPMN_PATH_def)
  have b: "s_read script_env_no_doc BPMN_PATH = None"
    by (simp add: script_env_no_doc_def BPMN_PATH_def)
  have m: "s_mkdir_ok script_env_no_doc OUT_DIR" by (simp add: script_env_no_doc_def)
  note t = missing_document_aborts [of env_no_doc plain_renderers script_env_no_doc plain_deps]
  have c: "main plain_renderers env_no_doc = (1, [ConsoleError missing_message])"
    using t a by blast
  have "script_main plain_deps script_env_no_doc
         = (if s_mkdir_ok script_env_no_doc OUT_DIR
            then (1, [MkDir OUT_DIR, ConsoleError script_missing_message])
            else (1, [ConsoleError script_failed_message]))"
    using t b by blast
  then have d: "script_main plain_deps script_env_no_doc
        = (1, [MkDir OUT_DIR, ConsoleError script_missing_message])"
    using m by simp
  from a b c d show ?thesis by blast
qed

lemma writeText_all_ok:
  "\<forall>p. mkdir_ok e p \<Longrightarrow> \<forall>p. write_ok e p \<Longrightarrow>
   snd (writeText_all e ws) = True
   \<and> map (\<lambda>ev. case ev of WriteFile p c \<Rightarrow> p | _ \<Rightarrow> []) (filter is_write (fst (writeText_all e ws)))
       = map fst ws"
  by (induction ws) (auto split: prod.splits)

lemma main_writes_when_present:
  assumes "exists_path e BPMN_PATH" and "read_text e BPMN_PATH = Some xml"
    and "parse_xml e xml = Some bpmn" and "\<not> scan_throws e"
    and "\<forall>p. mkdir_ok e p" and "\<forall>p. write_ok e p"
  shows "fst (main r e) = 0
       \<and> map (\<lambda>ev. case ev of WriteFile p c \<Rightarrow> p | _ \<Rightarrow> []) (filter is_write (snd (main r e)))
           = [OUT_ROOT_CSV, OUT_ROOT_HTML, OUT_ROOT_JSON, OUT_CSV, OUT_HTML, OUT_JSON]"
proof -
  let ?ws = "[(OUT_ROOT_CSV, toCSV r (rows (buildReport (collectBpmnElements (defs_of bpmn) [])
                 (scanTestsForBpmnTags (scan_read e) (glob_files e))))),
              (OUT_ROOT_HTML, toHTML r (rows (buildReport (collectBpmnElements (defs_of bpmn) [])
                 (scanTestsForBpmnTags (scan_read e) (glob_files e))))
                 (orphans (buildReport (collectBpmnElements (defs_of bpmn) [])
                 (scanTestsForBpmnTags (scan_read e) (glob_files e))))),
              (OUT_ROOT_JSON, stringify r (buildReport (collectBpmnElements (defs_of bpmn) [])
                 (scanTestsForBpmnTags (scan_read e) (glob_files e)))),
              (OUT_CSV, toCSV r (rows (buildReport (collectBpmnElements (defs_of bpmn) [])
                 (scanTestsForBpmnTags (scan_read e) (glob_files e))))),
              (OUT_HTML, toHTML r (rows (buildReport (collectBpmnElements (defs_of bpmn) [])
                 (scanTestsForBpmnTags (scan_read e) (glob_files e))))
                 (orphans (buildReport (collectBpmnElements (defs_of bpmn) [])
                 (scanTestsForBpmnTags (scan_read e) (glob_files e))))),
              (OUT_JSON, stringify r (buildReport (collectBpmnElements (defs_of bpmn) [])
                 (scanTestsForBpmnTags (scan_read e) (glob_files e))))]"
  obtain evs ok where w: "writeText_all e ?ws = (evs, ok)" by (cases "writeText_all e ?ws")
  from writeText_all_ok[OF assms(5,6), of ?ws] w
  have ok: "ok = True" and ps: "map (\<lambda>ev. case ev of WriteFile p c \<Rightarrow> p | _ \<Rightarrow> []) (filter is_write evs)
       = map fst ?ws" by simp_all
  have "main r e = (0, evs @ [ConsoleLog created_message])"
    using assms(1-4) w ok by (simp add: main_def Let_def)
  with ps show ?thesis by simp
qed




end
